theory Spec2Isabelle
  imports Main "HOL-Library.AList" "HOL-Library.Sublist"
begin

section \<open>Travel assistant: agent graph, tool dispatch, sessions, ingestion\<close>

text \<open>
  A shallow embedding of \<^verbatim>\<open>src/app/agents.py\<close>, \<^verbatim>\<open>src/app/tools.py\<close>,
  \<^verbatim>\<open>src/app/retriever.py\<close> and \<^verbatim>\<open>src/api/server.py\<close>.

  The language model, the retriever, the web-search client, the vector store and the
  file system are third-party collaborators. Each is a field of an environment record: a
  function from what the call receives to what it returns or raises. Inside one run of
  the graph the conversation grows between two model invocations, so a function of the
  conversation can stand for any sequence of model responses.
\<close>

subsection \<open>Python values, messages and exceptions\<close>

text \<open>
  The values the arguments of a tool call can hold, as they come out of JSON
  (numbers are integers here). A dict keeps its insertion order (an association list);
  \<^verbatim>\<open>dict.get\<close> is \<open>map_of\<close> with a default.
\<close>

datatype pyval =
    PyNone
  | PyBool bool
  | PyInt int
  | PyStr string
  | PyList "pyval list"
  | PyDict "(string \<times> pyval) list"

text \<open>
  An entry of \<^verbatim>\<open>AIMessage.tool_calls\<close>. In \<^verbatim>\<open>langchain_core\<close> it is a \<^verbatim>\<open>ToolCall\<close>, a
  typed dict: the fields below are its entries under the keys \<^verbatim>\<open>"id"\<close>, \<^verbatim>\<open>"name"\<close> and
  \<^verbatim>\<open>"args"\<close>, and \<^verbatim>\<open>"args"\<close> holds a dict.
\<close>

record tool_call =
  call_id :: string
  call_name :: string
  call_args :: "(string \<times> pyval) list"

text \<open>The three message classes the source imports from \<^verbatim>\<open>langchain_core.messages\<close>.\<close>

datatype message =
    HumanMessage string
  | AIMessage string "tool_call list"
  | ToolMessage string string

text \<open>\<^verbatim>\<open>getattr(msg, "tool_calls", [])\<close>: only an AIMessage has the attribute.\<close>

fun tool_calls :: "message \<Rightarrow> tool_call list" where
  "tool_calls (AIMessage c tcs) = tcs"
| "tool_calls (HumanMessage c) = []"
| "tool_calls (ToolMessage i c) = []"

fun content :: "message \<Rightarrow> string" where
  "content (HumanMessage c) = c"
| "content (AIMessage c tcs) = c"
| "content (ToolMessage i c) = c"

fun is_AIMessage :: "message \<Rightarrow> bool" where
  "is_AIMessage (AIMessage c tcs) = True"
| "is_AIMessage (HumanMessage c) = False"
| "is_AIMessage (ToolMessage i c) = False"

text \<open>
  The exceptions that leave a node uncaught: \<^verbatim>\<open>tool_map[call.name]\<close> on a missing key,
  \<^verbatim>\<open>messages[-1]\<close> on an empty list, and the read of an attribute that an object does
  not have.
\<close>

datatype error = KeyError string | IndexError | AttributeError string

text \<open>
  The source reads a tool call through attributes: \<^verbatim>\<open>call.name\<close>, \<^verbatim>\<open>call.args\<close>,
  \<^verbatim>\<open>call.id\<close>, \<^verbatim>\<open>tool_call.name\<close>. The call is a dict, and a dict has none of the three
  attributes, whatever its entries are: each read raises AttributeError and
  \<^verbatim>\<open>hasattr(call, 'args')\<close> is false. No value ever comes back, so the type of the value
  is left open.
\<close>

definition call_attr :: "tool_call \<Rightarrow> string \<Rightarrow> error + 'a" where
  "call_attr call attr = Inl (AttributeError attr)"

text \<open>
  What \<^verbatim>\<open>agent.invoke\<close> does: it raises an \<^verbatim>\<open>Exception\<close> (carried as its text), or it
  returns a value. \<open>Returns None\<close> is a value that is not a dict with the key
  \<^verbatim>\<open>"messages"\<close>; \<open>Returns (Some ms)\<close> is a dict whose \<^verbatim>\<open>"messages"\<close> entry is the list \<open>ms\<close>.
\<close>

datatype invoke_result = Raises string | Returns "message list option"

record env =
  agent_invoke :: "message list \<Rightarrow> invoke_result"
  get_relevant_documents :: "pyval \<Rightarrow> string + string list"
  duckduckgo_run :: "pyval \<Rightarrow> string + string"
  py_str :: "pyval \<Rightarrow> string"
  exc_str :: "error \<Rightarrow> string"

text \<open>
  \<open>get_relevant_documents\<close> yields the \<^verbatim>\<open>page_content\<close> of each document found, and
  \<open>duckduckgo_run\<close> the provider's text; \<open>Inl e\<close> is an \<^verbatim>\<open>Exception\<close> whose \<^verbatim>\<open>str\<close> is \<open>e\<close>.
  \<open>py_str\<close> is Python's \<^verbatim>\<open>str\<close> on a value and \<open>exc_str\<close> is \<^verbatim>\<open>str\<close> on an exception.
\<close>

subsection \<open>Tools (\<^verbatim>\<open>src/app/tools.py\<close>)\<close>

fun join :: "string \<Rightarrow> string list \<Rightarrow> string" where
  "join sep [] = []"
| "join sep [x] = x"
| "join sep (x # y # ys) = x @ sep @ join sep (y # ys)"

definition pdf_search :: "env \<Rightarrow> pyval \<Rightarrow> string + string" where
  "pdf_search e query =
     (case get_relevant_documents e query of
        Inl ex \<Rightarrow> Inl ex
      | Inr docs \<Rightarrow>
          if docs = [] then Inr ''No relevant documents found in the PDF database.''
          else Inr (join [CHR 0x0A, CHR 0x0A] docs))"

definition web_search :: "env \<Rightarrow> pyval \<Rightarrow> string + string" where
  "web_search e query =
     (case duckduckgo_run e query of
        Inl ex \<Rightarrow> Inl ex
      | Inr result \<Rightarrow> if result \<noteq> [] then Inr result else Inr ''No web results found.'')"

record tool =
  tool_name :: string
  func :: "pyval \<Rightarrow> string + string"

definition pdf_search_tool :: "env \<Rightarrow> tool" where
  "pdf_search_tool e = \<lparr>tool_name = ''pdf_search'', func = pdf_search e\<rparr>"

definition web_search_tool :: "env \<Rightarrow> tool" where
  "web_search_tool e = \<lparr>tool_name = ''web_search'', func = web_search e\<rparr>"

subsection \<open>The graph's nodes (\<^verbatim>\<open>src/app/agents.py\<close>)\<close>

definition tools :: "env \<Rightarrow> tool list" where
  "tools e = [pdf_search_tool e, web_search_tool e]"

text \<open>\<^verbatim>\<open>tool_map = {tool.name: tool for tool in tools}\<close>\<close>

definition tool_map :: "env \<Rightarrow> string \<rightharpoonup> tool" where
  "tool_map e = map_of (map (\<lambda>t. (tool_name t, t)) (tools e))"

definition apology :: string where
  "apology = ''Sorry, I encountered an error. Please try again.''"

text \<open>
  \<^verbatim>\<open>agent_node\<close>. Inside the \<^verbatim>\<open>try\<close>, \<^verbatim>\<open>result["messages"][-1]\<close> on an empty list raises
  IndexError, which the \<^verbatim>\<open>except Exception\<close> catches like a failure of the call itself.
\<close>

definition agent_node :: "env \<Rightarrow> message list \<Rightarrow> message list" where
  "agent_node e messages =
     (case agent_invoke e messages of
        Raises ex \<Rightarrow> messages @ [AIMessage apology []]
      | Returns None \<Rightarrow> messages
      | Returns (Some ms) \<Rightarrow>
          if ms = [] then messages @ [AIMessage apology []]
          else if is_AIMessage (last ms) then messages @ [last ms]
          else messages)"

text \<open>\<^verbatim>\<open>d.get(k, default)\<close>\<close>

definition dict_get :: "(string \<times> pyval) list \<Rightarrow> string \<Rightarrow> pyval \<Rightarrow> pyval" where
  "dict_get d k dflt = (case map_of d k of Some v \<Rightarrow> v | None \<Rightarrow> dflt)"

text \<open>
  The query of a call, lines 54 to 60 of \<^verbatim>\<open>agents.py\<close>: \<^verbatim>\<open>hasattr(call, 'args')\<close> holds
  when the read of the attribute raises nothing.
\<close>

fun query_of_args :: "env \<Rightarrow> pyval \<Rightarrow> pyval" where
  "query_of_args e (PyDict d) =
     dict_get d ''query'' (dict_get d ''__arg1'' (PyStr (py_str e (PyDict d))))"
| "query_of_args e a = PyStr (py_str e a)"

definition get_query :: "env \<Rightarrow> tool_call \<Rightarrow> pyval" where
  "get_query e call =
     (case call_attr call ''args'' of
        Inr a \<Rightarrow> query_of_args e a
      | Inl err \<Rightarrow> PyStr ''general search'')"

text \<open>
  The body of the \<^verbatim>\<open>for\<close> loop of \<^verbatim>\<open>tool_node\<close> for one call: the message it adds to
  \<^verbatim>\<open>tool_outputs\<close>. The read \<^verbatim>\<open>call.name\<close> and the lookup \<^verbatim>\<open>tool_map[...]\<close> stand before
  the \<^verbatim>\<open>try\<close>, so their exceptions are not caught; an exception of \<^verbatim>\<open>tool.func\<close> is
  caught and becomes the content. The read \<^verbatim>\<open>call.id\<close> stands inside the \<^verbatim>\<open>try\<close> and
  again inside the \<^verbatim>\<open>except\<close>: its exception is caught once and raised anew.
\<close>

definition tool_call_step :: "env \<Rightarrow> tool_call \<Rightarrow> error + message" where
  "tool_call_step e call =
     (case call_attr call ''name'' of
        Inl err \<Rightarrow> Inl err
      | Inr n \<Rightarrow>
          (case tool_map e n of
             None \<Rightarrow> Inl (KeyError n)
           | Some t \<Rightarrow>
               (case func t (get_query e call) of
                  Inr result \<Rightarrow>
                    (case call_attr call ''id'' of
                       Inl err \<Rightarrow> Inl err
                     | Inr i \<Rightarrow> Inr (ToolMessage i result))
                | Inl ex \<Rightarrow>
                    (case call_attr call ''id'' of
                       Inl err \<Rightarrow> Inl err
                     | Inr i \<Rightarrow>
                         Inr (ToolMessage i (''Tool '' @ tool_name t @ '' failed: '' @ ex))))))"

text \<open>The loop, with \<^verbatim>\<open>tool_outputs\<close> as the accumulator: an uncaught exception ends it.\<close>

fun tool_loop :: "env \<Rightarrow> tool_call list \<Rightarrow> message list \<Rightarrow> error + message list" where
  "tool_loop e [] tool_outputs = Inr tool_outputs"
| "tool_loop e (call # calls) tool_outputs =
     (case tool_call_step e call of
        Inl err \<Rightarrow> Inl err
      | Inr m \<Rightarrow> tool_loop e calls (tool_outputs @ [m]))"

definition tool_node :: "env \<Rightarrow> message list \<Rightarrow> error + message list" where
  "tool_node e messages =
     (if messages = [] then Inl IndexError
      else case tool_loop e (tool_calls (last messages)) [] of
             Inl err \<Rightarrow> Inl err
           | Inr tool_outputs \<Rightarrow> Inr (messages @ tool_outputs))"

definition router :: "message list \<Rightarrow> error + string" where
  "router messages =
     (if messages = [] then Inl IndexError
      else if is_AIMessage (last messages) then
             (if tool_calls (last messages) \<noteq> [] then Inr ''tools''
              else if content (last messages) \<noteq> [] then Inr ''end''
              else Inr ''end'')
      else Inr ''end'')"

subsection \<open>The compiled graph\<close>

text \<open>
  The graph enters at \<^verbatim>\<open>agent\<close>; after \<^verbatim>\<open>agent\<close> the router's answer picks \<^verbatim>\<open>tools\<close> or
  END; after \<^verbatim>\<open>tools\<close> the edge leads back to \<^verbatim>\<open>agent\<close>. The source sets no bound on
  the number of rounds, so a run that never ends has the value \<open>None\<close> (a recursion
  limit of the graph library itself is no part of the source and none of this model). The
  run records the nodes it has executed, in order; each execution of \<open>Agent\<close> is one call
  of \<^verbatim>\<open>agent.invoke\<close>. The nodes work on the list object of the caller, in place: when
  a node raises, the exception comes with the list as the nodes have left it.
\<close>

datatype node = Agent | Tools

partial_function (option) run_graph ::
  "env \<Rightarrow> node \<Rightarrow> message list \<Rightarrow> node list \<Rightarrow>
     (node list \<times> ((error \<times> message list) + message list)) option"
where
  "run_graph e n messages visited =
     (case n of
        Agent \<Rightarrow>
          (let ms = agent_node e messages in
           case router ms of
             Inl err \<Rightarrow> Some (visited @ [Agent], Inl (err, ms))
           | Inr r \<Rightarrow>
               if r = ''tools'' then run_graph e Tools ms (visited @ [Agent])
               else Some (visited @ [Agent], Inr ms))
      | Tools \<Rightarrow>
          (case tool_node e messages of
             Inl err \<Rightarrow> Some (visited @ [Tools], Inl (err, messages))
           | Inr ms \<Rightarrow> run_graph e Agent ms (visited @ [Tools])))"

text \<open>
  \<^verbatim>\<open>app.invoke(state)\<close>: the final state, or the exception that ended the run together
  with the caller's list as the run has left it.
\<close>

definition app_invoke ::
  "env \<Rightarrow> message list \<Rightarrow> ((error \<times> message list) + message list) option"
where
  "app_invoke e messages = map_option snd (run_graph e Agent messages [])"

subsection \<open>Sessions and the chat endpoint (\<^verbatim>\<open>src/api/server.py\<close>)\<close>

text \<open>
  \<^verbatim>\<open>chat_sessions\<close> is a Python dict: an association list in insertion order, read with
  \<open>map_of\<close>, written with \<open>AList.update\<close> (a new key goes to the end, an old key keeps
  its place) and shrunk with \<open>AList.delete\<close>. A \<^verbatim>\<open>datetime\<close> is its number of
  microseconds, an integer, so the difference of two of them is exact. The calls of the
  logger and the JSON bodies that \<^verbatim>\<open>delete_session\<close> and \<^verbatim>\<open>clear_session\<close> return
  are left out.
\<close>

record chat_message =
  role :: string
  chat_content :: string
  timestamp :: int

record session =
  session_messages :: "chat_message list"
  agent_state :: "message list"
  created_at :: int
  last_activity :: int
  message_count :: int

type_synonym sessions = "(string \<times> session) list"

text \<open>
  The host: \<open>now l\<close> is what \<^verbatim>\<open>datetime.now()\<close> returns at line \<open>l\<close> of \<^verbatim>\<open>server.py\<close>
  during the request at hand, and \<open>uuid4\<close> is the text of the identifier that
  \<^verbatim>\<open>uuid.uuid4()\<close> draws.
\<close>

record host =
  now :: "nat \<Rightarrow> int"
  uuid4 :: string

definition create_session_id :: "host \<Rightarrow> string" where
  "create_session_id h = uuid4 h"

definition new_session :: "host \<Rightarrow> session" where
  "new_session h =
     \<lparr>session_messages = [], agent_state = [], created_at = now h 86, last_activity = now h 87,
      message_count = 0\<rparr>"

definition get_or_create_session :: "host \<Rightarrow> string option \<Rightarrow> sessions \<Rightarrow> string \<times> sessions" where
  "get_or_create_session h session_id chat_sessions =
     (case session_id of
        None \<Rightarrow>
          (create_session_id h, AList.update (create_session_id h) (new_session h) chat_sessions)
      | Some sid \<Rightarrow>
          (case map_of chat_sessions sid of
             Some s \<Rightarrow>
               if sid \<noteq> [] then
                 (sid, AList.update sid (s\<lparr>last_activity := now h 79\<rparr>) chat_sessions)
               else
                 (create_session_id h,
                  AList.update (create_session_id h) (new_session h) chat_sessions)
           | None \<Rightarrow>
               (create_session_id h,
                AList.update (create_session_id h) (new_session h) chat_sessions)))"

text \<open>
  \<^verbatim>\<open>determine_sources_used\<close>: the two nested loops fill \<^verbatim>\<open>sources\<close>; the result is
  \<^verbatim>\<open>list(set(sources))\<close>, whose order Python does not fix, so it is the set. The inner
  loop reads \<^verbatim>\<open>tool_call.name\<close>.
\<close>

fun sources_of_calls :: "tool_call list \<Rightarrow> string list \<Rightarrow> error + string list" where
  "sources_of_calls [] sources = Inr sources"
| "sources_of_calls (tc # tcs) sources =
     (case call_attr tc ''name'' of
        Inl err \<Rightarrow> Inl err
      | Inr n \<Rightarrow>
          if n = ''pdf_search'' then sources_of_calls tcs (sources @ [''PDF Documents''])
          else if n = ''web_search'' then sources_of_calls tcs (sources @ [''Web Search''])
          else sources_of_calls tcs sources)"

fun sources_of_messages :: "message list \<Rightarrow> string list \<Rightarrow> error + string list" where
  "sources_of_messages [] sources = Inr sources"
| "sources_of_messages (m # ms) sources =
     (case sources_of_calls (tool_calls m) sources of
        Inl err \<Rightarrow> Inl err
      | Inr sources' \<Rightarrow> sources_of_messages ms sources')"

definition determine_sources_used :: "message list \<Rightarrow> error + string set" where
  "determine_sources_used agent_msgs =
     (case sources_of_messages agent_msgs [] of
        Inl err \<Rightarrow> Inl err
      | Inr sources \<Rightarrow> Inr (set sources))"

record chat_request =
  req_message :: string
  req_session_id :: "string option"

record chat_response =
  response :: string
  session_id :: string
  resp_timestamp :: int
  sources_used :: "string set"

datatype http_error = HTTPException nat string

text \<open>
  The \<^verbatim>\<open>chat\<close> endpoint. Every exception inside its \<^verbatim>\<open>try\<close> becomes status 500. The
  session's \<^verbatim>\<open>agent_state\<close> holds the list object that the graph works on: when the
  graph raises, the assignments after \<^verbatim>\<open>agent_app.invoke\<close> do not run, and the session
  has the list as the nodes have left it. \<^verbatim>\<open>determine_sources_used\<close> runs after the
  session is updated, so its exception leaves the updated session behind. A graph that
  never ends gives no response at all (\<open>None\<close>).
\<close>

definition chat ::
  "env \<Rightarrow> host \<Rightarrow> chat_request \<Rightarrow> sessions \<Rightarrow> (sessions \<times> (http_error + chat_response)) option"
where
  "chat e h request chat_sessions =
     (let (sid, cs1) = get_or_create_session h (req_session_id request) chat_sessions in
      (case map_of cs1 sid of
         None \<Rightarrow>
           Some (cs1, Inl (HTTPException 500 (''Internal server error: '' @ exc_str e (KeyError sid))))
       | Some s0 \<Rightarrow>
          (let user_message =
                 \<lparr>role = ''user'', chat_content = req_message request, timestamp = now h 138\<rparr>;
               s1 = s0\<lparr>session_messages := session_messages s0 @ [user_message],
                       agent_state := agent_state s0 @ [HumanMessage (req_message request)]\<rparr>
           in
           (case app_invoke e (agent_state s1) of
              None \<Rightarrow> None
            | Some (Inl (err, ms)) \<Rightarrow>
                Some (AList.update sid (s1\<lparr>agent_state := ms\<rparr>) cs1,
                  Inl (HTTPException 500 (''Internal server error: '' @ exc_str e err)))
            | Some (Inr resp) \<Rightarrow>
                (if resp = [] then
                   Some (AList.update sid (s1\<lparr>agent_state := resp\<rparr>) cs1,
                     Inl (HTTPException 500 (''Internal server error: '' @ exc_str e IndexError)))
                 else
                   (let bot_response = content (last resp);
                        bot_message =
                          \<lparr>role = ''assistant'', chat_content = bot_response,
                           timestamp = now h 166\<rparr>;
                        s2 = s1\<lparr>agent_state := resp,
                                message_count := message_count s1 + 1,
                                last_activity := now h 160,
                                session_messages := session_messages s1 @ [bot_message]\<rparr>;
                        cs2 = AList.update sid s2 cs1
                    in
                    (case determine_sources_used resp of
                       Inl err \<Rightarrow>
                         Some (cs2,
                           Inl (HTTPException 500
                                  (''Internal server error: '' @ exc_str e err)))
                     | Inr sources \<Rightarrow>
                         Some (cs2,
                           Inr \<lparr>response = bot_response, session_id = sid,
                                resp_timestamp = now h 178,
                                sources_used = sources\<rparr>))))))))"

definition delete_session :: "string \<Rightarrow> sessions \<Rightarrow> http_error + sessions" where
  "delete_session sid chat_sessions =
     (if map_of chat_sessions sid = None then Inl (HTTPException 404 ''Session not found'')
      else Inr (AList.delete sid chat_sessions))"

definition clear_session :: "string \<Rightarrow> sessions \<Rightarrow> http_error + sessions" where
  "clear_session sid chat_sessions =
     (case map_of chat_sessions sid of
        None \<Rightarrow> Inl (HTTPException 404 ''Session not found'')
      | Some s \<Rightarrow>
          Inr (AList.update sid (s\<lparr>session_messages := [], agent_state := [], message_count := 0\<rparr>)
                 chat_sessions))"

text \<open>
  \<^verbatim>\<open>cleanup_old_sessions\<close>. \<^verbatim>\<open>total_seconds()\<close> is the correctly rounded quotient of the
  difference in microseconds by \<open>10\<^sup>6\<close>; rounding is monotone and 86400 is a float, so
  the test \<^verbatim>\<open>total_seconds() > 24 * 3600\<close> holds exactly when the difference exceeds
  \<open>86400 \<cdot> 10\<^sup>6\<close> microseconds. \<^verbatim>\<open>del d[k]\<close> raises KeyError on a missing key.
\<close>

definition day_us :: int where
  "day_us = 24 * 3600 * 1000000"

fun sessions_to_delete :: "int \<Rightarrow> sessions \<Rightarrow> string list" where
  "sessions_to_delete current_time [] = []"
| "sessions_to_delete current_time ((sid, s) # rest) =
     (if current_time - last_activity s > day_us
      then sid # sessions_to_delete current_time rest
      else sessions_to_delete current_time rest)"

fun delete_all :: "string list \<Rightarrow> sessions \<Rightarrow> error + sessions" where
  "delete_all [] chat_sessions = Inr chat_sessions"
| "delete_all (sid # sids) chat_sessions =
     (if map_of chat_sessions sid = None then Inl (KeyError sid)
      else delete_all sids (AList.delete sid chat_sessions))"

text \<open>The result carries the number that the function logs as cleaned up.\<close>

definition cleanup_old_sessions :: "host \<Rightarrow> sessions \<Rightarrow> error + (sessions \<times> nat)" where
  "cleanup_old_sessions h chat_sessions =
     (let current_time = now h 245;
          to_delete = sessions_to_delete current_time chat_sessions
      in case delete_all to_delete chat_sessions of
           Inl err \<Rightarrow> Inl err
         | Inr cs \<Rightarrow> Inr (cs, length to_delete))"

subsection \<open>Ingestion (\<^verbatim>\<open>src/app/retriever.py\<close>)\<close>

text \<open>
  \<open>'d\<close> is the state of the disk, \<open>'em\<close> an embedding model and \<open>'db\<close> a vector store
  as the Chroma client hands it out. The library record holds the calls the module makes:
  \<^verbatim>\<open>os.path.exists(CHROMA_DIR)\<close>, \<^verbatim>\<open>os.listdir(CHROMA_DIR)\<close>, the directory loader over
  \<^verbatim>\<open>DOCS_PATH\<close>, the text splitter with its chunk size, overlap and separators, the
  constructor of the embedding model, the \<^verbatim>\<open>Chroma\<close> constructor on a directory and
  \<^verbatim>\<open>Chroma.from_documents\<close>. A call that can raise returns a sum; the two Chroma calls
  also return the disk as they leave it. The \<^verbatim>\<open>print\<close> lines are left out.
\<close>

record ('d, 'em, 'db) library =
  path_exists :: "'d \<Rightarrow> bool"
  listdir :: "'d \<Rightarrow> string list"
  directory_loader_load :: "'d \<Rightarrow> string + string list"
  splitter_split :: "nat \<Rightarrow> nat \<Rightarrow> string list \<Rightarrow> string list \<Rightarrow> string list"
  huggingface_embeddings :: "string + 'em"
  chroma :: "'em \<Rightarrow> 'd \<Rightarrow> 'd \<times> (string + 'db)"
  chroma_from_documents :: "string list \<Rightarrow> 'em \<Rightarrow> 'd \<Rightarrow> 'd \<times> (string + 'db)"

text \<open>The collaborators a run has called, in order.\<close>

datatype event =
    LoadDocuments
  | SplitDocuments
  | GetEmbeddingModel
  | ChromaOpen
  | ChromaFromDocuments

definition load_documents :: "('d, 'em, 'db) library \<Rightarrow> 'd \<Rightarrow> string + string list" where
  "load_documents lib d = directory_loader_load lib d"

definition split_documents :: "('d, 'em, 'db) library \<Rightarrow> string list \<Rightarrow> string list" where
  "split_documents lib documents =
     splitter_split lib 512 64 [[CHR 0x0A, CHR 0x0A], [CHR 0x0A], ''.'', '' '', []] documents"

definition get_embedding_model :: "('d, 'em, 'db) library \<Rightarrow> string + 'em" where
  "get_embedding_model lib = huggingface_embeddings lib"

definition build_or_load_vectorstore ::
  "('d, 'em, 'db) library \<Rightarrow> 'd \<Rightarrow> 'd \<times> event list \<times> (string + 'db)"
where
  "build_or_load_vectorstore lib d =
     (if path_exists lib d \<and> listdir lib d \<noteq> [] then
        (case get_embedding_model lib of
           Inl ex \<Rightarrow> (d, [GetEmbeddingModel], Inl ex)
         | Inr embedding_model \<Rightarrow>
             (case chroma lib embedding_model d of
                (d', vectordb) \<Rightarrow> (d', [GetEmbeddingModel, ChromaOpen], vectordb)))
      else
        (case load_documents lib d of
           Inl ex \<Rightarrow> (d, [LoadDocuments], Inl ex)
         | Inr docs \<Rightarrow>
             (case get_embedding_model lib of
                Inl ex \<Rightarrow> (d, [LoadDocuments, SplitDocuments, GetEmbeddingModel], Inl ex)
              | Inr embedding_model \<Rightarrow>
                  (case chroma_from_documents lib (split_documents lib docs) embedding_model d of
                     (d', vectordb) \<Rightarrow>
                       (d', [LoadDocuments, SplitDocuments, GetEmbeddingModel, ChromaFromDocuments],
                        vectordb)))))"

subsection \<open>Example inputs\<close>

text \<open>
  A conversation about Manali. \<^verbatim>\<open>agent.invoke\<close> is the prebuilt agent of line 24 of
  \<^verbatim>\<open>agents.py\<close>: it calls \<^verbatim>\<open>pdf_search\<close> itself and returns the conversation it was
  given, followed by its tool call, the tool's result and its answer. The retriever finds
  two chunks and the web search times out.
\<close>

definition ex_pdf_call :: tool_call where
  "ex_pdf_call =
     \<lparr>call_id = ''call_1'', call_name = ''pdf_search'',
      call_args = [(''query'', PyStr ''Manali places to visit'')]\<rparr>"

definition ex_web_call :: tool_call where
  "ex_web_call =
     \<lparr>call_id = ''call_2'', call_name = ''web_search'',
      call_args = [(''query'', PyStr ''Goa weather'')]\<rparr>"

definition ex_calc_call :: tool_call where
  "ex_calc_call =
     \<lparr>call_id = ''call_3'', call_name = ''calculator'',
      call_args = [(''query'', PyStr ''2+2'')]\<rparr>"

definition ex_answer :: string where
  "ex_answer = ''Visit Hadimba Temple and Solang Valley.''"

definition ex_question :: string where
  "ex_question = ''What places to visit in Manali?''"

definition ex_chunks :: string where
  "ex_chunks = ''Hadimba Temple'' @ [CHR 0x0A, CHR 0x0A] @ ''Solang Valley''"

definition ex_inner_steps :: "message list" where
  "ex_inner_steps =
     [AIMessage [] [ex_pdf_call], ToolMessage ''call_1'' ex_chunks, AIMessage ex_answer []]"

definition ex_env :: env where
  "ex_env =
     \<lparr>agent_invoke = (\<lambda>ms. Returns (Some (ms @ ex_inner_steps))),
      get_relevant_documents = (\<lambda>q. Inr [''Hadimba Temple'', ''Solang Valley'']),
      duckduckgo_run = (\<lambda>q. Inl ''timeout''),
      py_str = (\<lambda>v. ''{}''),
      exc_str = (\<lambda>err. ''error'')\<rparr>"

text \<open>The same collaborators with a model that fails, and with one whose last message calls tools.\<close>

definition ex_env_down :: env where
  "ex_env_down = ex_env\<lparr>agent_invoke := (\<lambda>ms. Raises ''connection reset'')\<rparr>"

definition ex_env_calls :: env where
  "ex_env_calls =
     ex_env\<lparr>agent_invoke :=
               (\<lambda>ms. Returns (Some (ms @ [AIMessage [] [ex_pdf_call, ex_web_call]])))\<rparr>"

definition ex_host :: host where
  "ex_host = \<lparr>now = (\<lambda>l. 0), uuid4 = ''session-1''\<rparr>"

definition ex_host2 :: host where
  "ex_host2 = \<lparr>now = (\<lambda>l. 0), uuid4 = ''session-2''\<rparr>"

definition ex_two_calls :: "message list" where
  "ex_two_calls = [HumanMessage ''Manali or Goa?'', AIMessage [] [ex_pdf_call, ex_web_call]]"

definition ex_one_unknown :: "message list" where
  "ex_one_unknown = [HumanMessage ''What is 2+2?'', AIMessage [] [ex_calc_call]]"

definition ex_turn1_state :: "message list" where
  "ex_turn1_state = [HumanMessage ex_question, AIMessage ex_answer []]"

definition ex_session1 :: session where
  "ex_session1 =
     \<lparr>session_messages =
        [\<lparr>role = ''user'', chat_content = ex_question, timestamp = 0\<rparr>,
         \<lparr>role = ''assistant'', chat_content = ex_answer, timestamp = 0\<rparr>],
      agent_state = ex_turn1_state,
      created_at = 0, last_activity = 0, message_count = 1\<rparr>"

definition ex_session2 :: session where
  "ex_session2 =
     \<lparr>session_messages =
        [\<lparr>role = ''user'', chat_content = ex_question, timestamp = 0\<rparr>,
         \<lparr>role = ''assistant'', chat_content = ex_answer, timestamp = 0\<rparr>,
         \<lparr>role = ''user'', chat_content = ''Thanks'', timestamp = 0\<rparr>,
         \<lparr>role = ''assistant'', chat_content = ex_answer, timestamp = 0\<rparr>],
      agent_state = ex_turn1_state @ [HumanMessage ''Thanks'', AIMessage ex_answer []],
      created_at = 0, last_activity = 0, message_count = 2\<rparr>"

text \<open>The session a turn leaves behind when the tool node raises.\<close>

definition ex_session_failed :: session where
  "ex_session_failed =
     \<lparr>session_messages = [\<lparr>role = ''user'', chat_content = ''Manali or Goa?'', timestamp = 0\<rparr>],
      agent_state = ex_two_calls,
      created_at = 0, last_activity = 0, message_count = 0\<rparr>"

text \<open>
  Three sessions seen at time \<open>100000000000\<close>: one idle for longer than a day, one idle
  for a day to the microsecond, one idle for an hour.
\<close>

definition ex_sweep_host :: host where
  "ex_sweep_host = \<lparr>now = (\<lambda>l. 100000000000), uuid4 = ''session-9''\<rparr>"

definition ex_idle :: "int \<Rightarrow> session" where
  "ex_idle t =
     \<lparr>session_messages = [], agent_state = [], created_at = 0, last_activity = t,
      message_count = 0\<rparr>"

definition ex_sweep_sessions :: sessions where
  "ex_sweep_sessions =
     [(''old'', ex_idle 13599999999), (''edge'', ex_idle 13600000000),
      (''young'', ex_idle 96400000000)]"

text \<open>
  A disk that is the listing of the index directory; opening the index reads it, and
  building it writes one file.
\<close>

definition ex_library :: "(string list, unit, string list) library" where
  "ex_library =
     \<lparr>path_exists = (\<lambda>d. True),
      listdir = (\<lambda>d. d),
      directory_loader_load = (\<lambda>d. Inr [''Manali guide'']),
      splitter_split = (\<lambda>size overlap seps docs. docs),
      huggingface_embeddings = Inr (),
      chroma = (\<lambda>em d. (d, Inr d)),
      chroma_from_documents = (\<lambda>chunks em d. (''chroma.sqlite3'' # d, Inr chunks))\<rparr>"

section \<open>Properties\<close>

subsection \<open>Tool dispatch and the steps of the graph\<close>

lemma tool_map_eq:
  "tool_map e n =
     (if n = ''pdf_search'' then Some (pdf_search_tool e)
      else if n = ''web_search'' then Some (web_search_tool e) else None)"
  by (simp add: tool_map_def tools_def pdf_search_tool_def web_search_tool_def)

lemma router_final: "router (ms @ [AIMessage c []]) = Inr ''end''"
  by (simp add: router_def)

lemma run_agent_end:
  "router (agent_node e msgs) = Inr ''end'' \<Longrightarrow>
   run_graph e Agent msgs visited = Some (visited @ [Agent], Inr (agent_node e msgs))"
  by (subst run_graph.simps) simp

lemma run_agent_tools:
  "router (agent_node e msgs) = Inr ''tools'' \<Longrightarrow>
   run_graph e Agent msgs visited = run_graph e Tools (agent_node e msgs) (visited @ [Agent])"
  by (subst run_graph.simps) simp

lemma run_tools_err:
  "tool_node e msgs = Inl err \<Longrightarrow>
   run_graph e Tools msgs visited = Some (visited @ [Tools], Inl (err, msgs))"
  by (subst run_graph.simps) simp

text \<open>
  Every call is a dict, so the first read of \<^verbatim>\<open>call.name\<close> ends the loop: the tool map
  is not consulted, no query is taken and no tool runs.
\<close>

lemma tool_call_step_raises: "tool_call_step e call = Inl (AttributeError ''name'')"
  by (simp add: tool_call_step_def call_attr_def)

lemma tool_loop_eq:
  "tool_loop e calls acc = (if calls = [] then Inr acc else Inl (AttributeError ''name''))"
  by (cases calls) (simp_all add: tool_call_step_raises)

lemma tool_node_raises:
  "msgs \<noteq> [] \<Longrightarrow> tool_calls (last msgs) \<noteq> [] \<Longrightarrow>
   tool_node e msgs = Inl (AttributeError ''name'')"
  by (simp add: tool_node_def tool_loop_eq)

lemma get_query_general: "get_query e call = PyStr ''general search''"
  by (simp add: get_query_def call_attr_def)

text \<open>The same read ends the scan for sources at the first tool call of the state.\<close>

lemma sources_of_calls_eq:
  "sources_of_calls tcs acc = (if tcs = [] then Inr acc else Inl (AttributeError ''name''))"
  by (cases tcs) (simp_all add: call_attr_def)

lemma sources_of_messages_eq:
  "sources_of_messages ms acc =
     (if \<forall>m \<in> set ms. tool_calls m = [] then Inr acc else Inl (AttributeError ''name''))"
  by (induction ms arbitrary: acc) (simp_all add: sources_of_calls_eq)

lemma determine_sources_used_eq:
  "determine_sources_used ms =
     (if \<forall>m \<in> set ms. tool_calls m = [] then Inr {} else Inl (AttributeError ''name''))"
  by (simp add: determine_sources_used_def sources_of_messages_eq)

subsection \<open>The example conversation, step by step\<close>

lemma ex_agent_node: "agent_node ex_env ms = ms @ [AIMessage ex_answer []]"
  by (simp add: agent_node_def ex_env_def ex_inner_steps_def)

lemma ex_run:
  "run_graph ex_env Agent ms [] = Some ([Agent], Inr (ms @ [AIMessage ex_answer []]))"
proof -
  have a: "agent_node ex_env ms = ms @ [AIMessage ex_answer []]"
    by (simp add: ex_agent_node)
  show ?thesis
    using run_agent_end[of ex_env ms "[]"] by (simp add: a router_final)
qed

lemma ex_chat1:
  "chat ex_env ex_host \<lparr>req_message = ex_question, req_session_id = None\<rparr> [] =
     Some ([(''session-1'', ex_session1)],
           Inr \<lparr>response = ex_answer, session_id = ''session-1'', resp_timestamp = 0,
                sources_used = {}\<rparr>)"
  by (simp add: chat_def get_or_create_session_def create_session_id_def new_session_def
        ex_host_def app_invoke_def ex_run determine_sources_used_eq ex_session1_def
        ex_turn1_state_def)

lemma ex_chat2:
  "chat ex_env ex_host2 \<lparr>req_message = ''Thanks'', req_session_id = Some ''session-1''\<rparr>
        [(''session-1'', ex_session1)] =
     Some ([(''session-1'', ex_session2)],
           Inr \<lparr>response = ex_answer, session_id = ''session-1'', resp_timestamp = 0,
                sources_used = {}\<rparr>)"
  by (simp add: chat_def get_or_create_session_def ex_host2_def app_invoke_def
        ex_session1_def ex_run determine_sources_used_eq ex_session2_def ex_turn1_state_def)

lemma ex_run_calls:
  "run_graph ex_env_calls Agent [HumanMessage ''Manali or Goa?''] [] =
     Some ([Agent, Tools], Inl (AttributeError ''name'', ex_two_calls))"
proof -
  have a: "agent_node ex_env_calls [HumanMessage ''Manali or Goa?''] = ex_two_calls"
    by (simp add: agent_node_def ex_env_calls_def ex_two_calls_def)
  have r: "router ex_two_calls = Inr ''tools''"
    by (simp add: router_def ex_two_calls_def)
  have t: "tool_node ex_env_calls ex_two_calls = Inl (AttributeError ''name'')"
    by (rule tool_node_raises) (simp_all add: ex_two_calls_def)
  have "run_graph ex_env_calls Agent [HumanMessage ''Manali or Goa?''] [] =
        run_graph ex_env_calls Tools ex_two_calls [Agent]"
    using run_agent_tools[of ex_env_calls "[HumanMessage ''Manali or Goa?'']" "[]"]
    by (simp add: a r)
  also have "\<dots> = Some ([Agent, Tools], Inl (AttributeError ''name'', ex_two_calls))"
    using run_tools_err[OF t, of "[Agent]"] by simp
  finally show ?thesis .
qed

lemma ex_chat_calls:
  "chat ex_env_calls ex_host \<lparr>req_message = ''Manali or Goa?'', req_session_id = None\<rparr> [] =
     Some ([(''session-1'', ex_session_failed)],
           Inl (HTTPException 500 ''Internal server error: error''))"
  by (simp add: chat_def get_or_create_session_def create_session_id_def new_session_def
        ex_host_def app_invoke_def ex_run_calls ex_session_failed_def)
     (simp add: ex_env_calls_def ex_env_def)

subsection \<open>The agent loop\<close>

text \<open>
  Claim C1. When the model's response (the last message \<^verbatim>\<open>agent.invoke\<close> returns) is an
  AIMessage without tool calls and with non-empty text \<open>c\<close>, the run executes the agent
  node once and no other node, ends, and returns the conversation extended by that
  message, whose text is \<open>c\<close>. The \<^verbatim>\<open>chat\<close> endpoint hands \<open>c\<close> to its caller when the
  conversation holds no tool call; when it holds one, the scan for sources raises after the
  run and the endpoint answers with status 500.
\<close>

theorem tool_free_response_ends_loop:
  assumes "agent_invoke e msgs = Returns (Some rs)" and "rs \<noteq> []"
    and "last rs = AIMessage c []" and "c \<noteq> []"
  shows "run_graph e Agent msgs [] = Some ([Agent], Inr (msgs @ [AIMessage c []]))
       \<and> app_invoke e msgs = Some (Inr (msgs @ [AIMessage c []]))
       \<and> content (last (msgs @ [AIMessage c []])) = c
       \<and> (\<forall>h req cs sid cs1 s0.
            get_or_create_session h (req_session_id req) cs = (sid, cs1)
            \<and> map_of cs1 sid = Some s0
            \<and> agent_state s0 @ [HumanMessage (req_message req)] = msgs
            \<longrightarrow> (if \<forall>m \<in> set msgs. tool_calls m = []
                 then \<exists>cs' r. chat e h req cs = Some (cs', Inr r) \<and> response r = c
                 else \<exists>cs'. chat e h req cs =
                        Some (cs', Inl (HTTPException 500
                          (''Internal server error: '' @ exc_str e (AttributeError ''name''))))))"
proof -
  have a: "agent_node e msgs = msgs @ [AIMessage c []]"
    using assms by (simp add: agent_node_def)
  have "run_graph e Agent msgs [] = Some ([] @ [Agent], Inr (agent_node e msgs))"
    by (rule run_agent_end) (simp add: a router_final)
  then have r: "run_graph e Agent msgs [] = Some ([Agent], Inr (msgs @ [AIMessage c []]))"
    by (simp add: a)
  then have i: "app_invoke e msgs = Some (Inr (msgs @ [AIMessage c []]))"
    by (simp add: app_invoke_def)
  have ch: "if \<forall>m \<in> set msgs. tool_calls m = []
        then \<exists>cs' r. chat e h req cs = Some (cs', Inr r) \<and> response r = c
        else \<exists>cs'. chat e h req cs =
               Some (cs', Inl (HTTPException 500
                 (''Internal server error: '' @ exc_str e (AttributeError ''name''))))"
    if "get_or_create_session h (req_session_id req) cs = (sid, cs1)
        \<and> map_of cs1 sid = Some s0
        \<and> agent_state s0 @ [HumanMessage (req_message req)] = msgs"
    for h req cs sid cs1 s0
    using that i by (simp add: chat_def Let_def determine_sources_used_eq)
  have l: "content (last (msgs @ [AIMessage c []])) = c" by simp
  show ?thesis
  proof (intro conjI allI impI)
    show "run_graph e Agent msgs [] = Some ([Agent], Inr (msgs @ [AIMessage c []]))"
      by (rule r)
    show "app_invoke e msgs = Some (Inr (msgs @ [AIMessage c []]))"
      by (rule i)
    show "content (last (msgs @ [AIMessage c []])) = c"
      by (rule l)
  next
    fix h and req :: chat_request and cs sid cs1 s0
    assume "get_or_create_session h (req_session_id req) cs = (sid, cs1)
        \<and> map_of cs1 sid = Some s0
        \<and> agent_state s0 @ [HumanMessage (req_message req)] = msgs"
    then show "if \<forall>m \<in> set msgs. tool_calls m = []
        then \<exists>cs' r. chat e h req cs = Some (cs', Inr r) \<and> response r = c
        else \<exists>cs'. chat e h req cs =
               Some (cs', Inl (HTTPException 500
                 (''Internal server error: '' @ exc_str e (AttributeError ''name''))))"
      by (rule ch)
  qed
qed

theorem tool_free_response_ends_loop_witness:
  "agent_invoke ex_env ex_turn1_state = Returns (Some (ex_turn1_state @ ex_inner_steps))
   \<and> last (ex_turn1_state @ ex_inner_steps) = AIMessage ex_answer []
   \<and> ex_answer \<noteq> []
   \<and> run_graph ex_env Agent ex_turn1_state [] =
       Some ([Agent], Inr (ex_turn1_state @ [AIMessage ex_answer []]))
   \<and> app_invoke ex_env ex_turn1_state = Some (Inr (ex_turn1_state @ [AIMessage ex_answer []]))"
proof -
  have h1: "agent_invoke ex_env ex_turn1_state = Returns (Some (ex_turn1_state @ ex_inner_steps))"
    by (simp add: ex_env_def)
  have h2: "ex_turn1_state @ ex_inner_steps \<noteq> []" by (simp add: ex_inner_steps_def)
  have h3: "last (ex_turn1_state @ ex_inner_steps) = AIMessage ex_answer []"
    by (simp add: ex_inner_steps_def)
  have h4: "ex_answer \<noteq> []" by (simp add: ex_answer_def)
  show ?thesis
    using h1 h3 h4 tool_free_response_ends_loop[OF h1 h2 h3 h4] by simp
qed

text \<open>
  Claim C3. When \<^verbatim>\<open>agent.invoke\<close> raises, the agent node appends one AIMessage with the
  fixed apology text and no tool calls, the router answers \<^verbatim>\<open>end\<close>, and the run returns
  the extended conversation: it ends after this node, with a state and not an exception.
\<close>

theorem model_failure_apology:
  assumes "agent_invoke e msgs = Raises ex"
  shows "agent_node e msgs =
           msgs @ [AIMessage ''Sorry, I encountered an error. Please try again.'' []]
       \<and> run_graph e Agent msgs visited =
           Some (visited @ [Agent],
                 Inr (msgs @ [AIMessage ''Sorry, I encountered an error. Please try again.'' []]))
       \<and> app_invoke e msgs =
           Some (Inr (msgs @ [AIMessage ''Sorry, I encountered an error. Please try again.'' []]))"
proof -
  have a: "agent_node e msgs = msgs @ [AIMessage apology []]"
    using assms by (simp add: agent_node_def)
  have r: "run_graph e Agent msgs v = Some (v @ [Agent], Inr (agent_node e msgs))" for v
    by (rule run_agent_end) (simp add: a router_final)
  show ?thesis using a r[of visited] r[of "[]"] by (simp add: app_invoke_def apology_def)
qed

theorem model_failure_apology_witness:
  "agent_invoke ex_env_down [HumanMessage ex_question] = Raises ''connection reset''
   \<and> app_invoke ex_env_down [HumanMessage ex_question] =
       Some (Inr [HumanMessage ex_question,
                  AIMessage ''Sorry, I encountered an error. Please try again.'' []])"
proof -
  have h: "agent_invoke ex_env_down [HumanMessage ex_question] = Raises ''connection reset''"
    by (simp add: ex_env_down_def)
  show ?thesis
    using h model_failure_apology[OF h, of "[]"] by simp
qed

subsection \<open>The tool node\<close>

text \<open>
  Claim C2, at a response with two calls, one to each mapped tool. The tool node raises
  AttributeError at the read of \<^verbatim>\<open>call.name\<close> of the first call and appends no
  ToolMessage; the run ends at the tools node with this exception and the conversation as
  the agent node left it, and the \<^verbatim>\<open>chat\<close> endpoint answers with status 500.
\<close>

theorem mapped_tool_calls_append_nothing:
  "tool_calls (last ex_two_calls) = [ex_pdf_call, ex_web_call]
   \<and> call_name ex_pdf_call = ''pdf_search''
   \<and> call_name ex_web_call = ''web_search''
   \<and> tool_node ex_env ex_two_calls = Inl (AttributeError ''name'')
   \<and> run_graph ex_env Tools ex_two_calls [] =
       Some ([Tools], Inl (AttributeError ''name'', ex_two_calls))
   \<and> chat ex_env_calls ex_host \<lparr>req_message = ''Manali or Goa?'', req_session_id = None\<rparr> [] =
       Some ([(''session-1'', ex_session_failed)],
             Inl (HTTPException 500 ''Internal server error: error''))"
proof -
  have n: "tool_node ex_env ex_two_calls = Inl (AttributeError ''name'')"
    by (rule tool_node_raises) (simp_all add: ex_two_calls_def)
  from n run_tools_err[OF n, of "[]"] ex_chat_calls show ?thesis
    by (simp add: ex_two_calls_def ex_pdf_call_def ex_web_call_def)
qed

text \<open>
  Claim C4, at a call to \<^verbatim>\<open>web_search\<close> while the search provider times out. The tool's
  function would raise, but the loop body raises AttributeError at \<^verbatim>\<open>call.name\<close> before
  it looks the tool up: the tool does not run, no ToolMessage with an error text is made,
  and the exception leaves the node and ends the run.
\<close>

theorem failing_tool_never_runs:
  "call_name ex_web_call = ''web_search''
   \<and> tool_map ex_env ''web_search'' = Some (web_search_tool ex_env)
   \<and> func (web_search_tool ex_env) (PyStr ''Goa weather'') = Inl ''timeout''
   \<and> tool_call_step ex_env ex_web_call = Inl (AttributeError ''name'')
   \<and> tool_node ex_env [HumanMessage ''Goa?'', AIMessage [] [ex_web_call]] =
       Inl (AttributeError ''name'')
   \<and> run_graph ex_env Tools [HumanMessage ''Goa?'', AIMessage [] [ex_web_call]] [] =
       Some ([Tools],
             Inl (AttributeError ''name'', [HumanMessage ''Goa?'', AIMessage [] [ex_web_call]]))"
proof -
  have n: "tool_node ex_env [HumanMessage ''Goa?'', AIMessage [] [ex_web_call]] =
             Inl (AttributeError ''name'')"
    by (rule tool_node_raises) simp_all
  have f: "func (web_search_tool ex_env) (PyStr ''Goa weather'') = Inl ''timeout''"
    by (simp add: web_search_tool_def web_search_def ex_env_def)
  from n f run_tools_err[OF n, of "[]"] show ?thesis
    by (simp add: tool_call_step_raises tool_map_eq ex_web_call_def)
qed

text \<open>
  Claim C5, at a call to \<^verbatim>\<open>calculator\<close>, a name the tool map does not hold. The loop
  body raises AttributeError at \<^verbatim>\<open>call.name\<close>, as it does for a call to a mapped tool:
  the lookup in the tool map, which would raise KeyError, is not reached.
\<close>

theorem unknown_tool_raises_AttributeError:
  "call_name ex_calc_call = ''calculator''
   \<and> tool_map ex_env ''calculator'' = None
   \<and> tool_call_step ex_env ex_calc_call = Inl (AttributeError ''name'')
   \<and> tool_call_step ex_env ex_pdf_call = Inl (AttributeError ''name'')
   \<and> tool_node ex_env ex_one_unknown = Inl (AttributeError ''name'')
   \<and> AttributeError ''name'' \<noteq> KeyError ''calculator''"
proof -
  have n: "tool_node ex_env ex_one_unknown = Inl (AttributeError ''name'')"
    by (rule tool_node_raises) (simp_all add: ex_one_unknown_def)
  from n show ?thesis
    by (simp add: tool_call_step_raises tool_map_eq ex_calc_call_def)
qed

text \<open>
  Claim C6, at a call whose arguments hold the key \<^verbatim>\<open>query\<close>. The chain of line 56 would
  give the value under that key, but \<^verbatim>\<open>hasattr(call, 'args')\<close> is false for the dict, so
  lines 54 to 60 give \<^verbatim>\<open>general search\<close>; and the loop body raises at \<^verbatim>\<open>call.name\<close>
  before it takes any query, so no tool receives one.
\<close>

theorem query_chain_not_reached:
  "call_args ex_pdf_call = [(''query'', PyStr ''Manali places to visit'')]
   \<and> query_of_args ex_env (PyDict (call_args ex_pdf_call)) = PyStr ''Manali places to visit''
   \<and> get_query ex_env ex_pdf_call = PyStr ''general search''
   \<and> tool_call_step ex_env ex_pdf_call = Inl (AttributeError ''name'')"
  by (simp add: tool_call_step_raises get_query_general ex_pdf_call_def dict_get_def)

subsection \<open>Sources of a chat turn\<close>

text \<open>
  Claim C7, at the first turn of a session. Inside \<^verbatim>\<open>agent.invoke\<close> the model calls
  \<^verbatim>\<open>pdf_search\<close> and then answers. The agent node keeps the last message of what
  \<^verbatim>\<open>agent.invoke\<close> returns and drops the tool call before it, so the state that
  \<^verbatim>\<open>determine_sources_used\<close> scans holds no tool call and the response lists no source.
\<close>

theorem sources_used_empty_after_tool_use:
  "agent_invoke ex_env [HumanMessage ex_question] =
     Returns (Some (HumanMessage ex_question # ex_inner_steps))
   \<and> map call_name (concat (map tool_calls ex_inner_steps)) = [''pdf_search'']
   \<and> chat ex_env ex_host \<lparr>req_message = ex_question, req_session_id = None\<rparr> [] =
       Some ([(''session-1'', ex_session1)],
             Inr \<lparr>response = ex_answer, session_id = ''session-1'', resp_timestamp = 0,
                  sources_used = {}\<rparr>)"
  using ex_chat1 by (simp add: ex_env_def ex_inner_steps_def ex_pdf_call_def)

subsection \<open>Append-only conversation state\<close>

lemma agent_node_prefix: "prefix msgs (agent_node e msgs)"
  by (simp add: agent_node_def split: invoke_result.splits option.splits)

lemma tool_node_prefix: "tool_node e msgs = Inr ms \<Longrightarrow> prefix msgs ms"
  by (auto simp: tool_node_def tool_loop_eq split: if_splits sum.splits)

text \<open>
  Every run that ends, with a state or with an exception, leaves an extension of the
  conversation it started from.
\<close>

lemma run_graph_prefix:
  "run_graph e n msgs v = Some y \<Longrightarrow>
   prefix msgs (case snd y of Inl (err, ms) \<Rightarrow> ms | Inr ms \<Rightarrow> ms)"
proof (induction rule: run_graph.raw_induct[rotated 1, consumes 1])
  case (1 run e n messages visited y)
  show ?case
  proof (cases n)
    case Agent
    show ?thesis
    proof (cases "router (agent_node e messages)")
      case (Inl err)
      with 1(2) Agent have "snd y = Inl (err, agent_node e messages)"
        by (auto simp: Let_def)
      then show ?thesis by (simp add: agent_node_prefix)
    next
      case (Inr r)
      show ?thesis
      proof (cases "r = ''tools''")
        case True
        with 1(2) Agent Inr have "run e Tools (agent_node e messages) (visited @ [Agent]) = Some y"
          by (simp add: Let_def)
        from 1(1)[OF this]
        have "prefix (agent_node e messages) (case snd y of Inl (err, ms) \<Rightarrow> ms | Inr ms \<Rightarrow> ms)" .
        with agent_node_prefix[of messages e] show ?thesis by (rule prefix_order.trans)
      next
        case False
        with 1(2) Agent Inr have "snd y = Inr (agent_node e messages)" by (auto simp: Let_def)
        then show ?thesis by (simp add: agent_node_prefix)
      qed
    qed
  next
    case Tools
    show ?thesis
    proof (cases "tool_node e messages")
      case (Inl err)
      with 1(2) Tools have "snd y = Inl (err, messages)" by auto
      then show ?thesis by simp
    next
      case (Inr ms')
      with 1(2) Tools have "run e Agent ms' (visited @ [Tools]) = Some y" by simp
      from 1(1)[OF this]
      have "prefix ms' (case snd y of Inl (err, ms) \<Rightarrow> ms | Inr ms \<Rightarrow> ms)" .
      with tool_node_prefix[OF Inr] show ?thesis by (rule prefix_order.trans)
    qed
  qed
qed

lemma app_invoke_prefix: "app_invoke e msgs = Some (Inr ms) \<Longrightarrow> prefix msgs ms"
  by (auto simp: app_invoke_def dest: run_graph_prefix)

lemma app_invoke_error_prefix: "app_invoke e msgs = Some (Inl (err, ms)) \<Longrightarrow> prefix msgs ms"
  by (auto simp: app_invoke_def dest: run_graph_prefix)

lemma get_or_create_keeps:
  assumes "get_or_create_session h sido cs = (sid, cs1)" and "map_of cs k = Some s"
    and "map_of cs (uuid4 h) = None"
  shows "\<exists>s1. map_of cs1 k = Some s1 \<and> agent_state s1 = agent_state s"
  using assms
  by (auto simp: get_or_create_session_def create_session_id_def update_conv'
           split: option.splits if_splits)

lemma chat_prefix:
  assumes "chat e h req cs = Some (cs', r)" and "map_of cs k = Some s"
    and "map_of cs (uuid4 h) = None"
  shows "\<exists>s'. map_of cs' k = Some s' \<and> prefix (agent_state s) (agent_state s')"
proof -
  obtain sid cs1 where g: "get_or_create_session h (req_session_id req) cs = (sid, cs1)"
    by (cases "get_or_create_session h (req_session_id req) cs")
  from get_or_create_keeps[OF g assms(2,3)] obtain s1 where
    s1: "map_of cs1 k = Some s1" "agent_state s1 = agent_state s" by blast
  show ?thesis
  proof (cases "k = sid")
    case False
    with assms(1) g s1 show ?thesis
      by (auto simp: chat_def update_conv' Let_def
               split: option.splits sum.splits if_splits prod.splits)
  next
    case True
    with assms(1) g s1 show ?thesis
      by (auto simp: chat_def update_conv' Let_def
               dest!: app_invoke_prefix app_invoke_error_prefix
               split: option.splits sum.splits if_splits prod.splits
               intro: append_prefixD)
  qed
qed

text \<open>
  \<^verbatim>\<open>clear_session\<close> on the session of the example: the two messages of the first turn
  are gone, and they are no prefix of the empty sequence that replaces them.
\<close>

theorem clear_session_not_append_only:
  "clear_session ''session-1'' [(''session-1'', ex_session1)] =
     Inr [(''session-1'',
           ex_session1\<lparr>session_messages := [], agent_state := [], message_count := 0\<rparr>)]
   \<and> length (agent_state ex_session1) = 2
   \<and> agent_state (ex_session1\<lparr>session_messages := [], agent_state := [], message_count := 0\<rparr>) = []
   \<and> \<not> prefix (agent_state ex_session1) []"
  by (simp add: clear_session_def ex_session1_def ex_turn1_state_def)

text \<open>
  Claim C8, amended. Every operation on a session other than \<^verbatim>\<open>clear_session\<close> changes
  its conversation state by appending only. The state before is a prefix of the state
  after for the agent node, for the tool node and for a run of the graph, whether the run
  returns a state or raises. When the identifier that \<^verbatim>\<open>uuid4\<close> draws for a new session
  is not a key of the session map, resolving a session leaves the state of every session
  of the map as it is, and a chat turn, whatever it answers, leaves the state of every
  session of the map a prefix of its state afterwards. Deleting a session leaves the
  states of the sessions that remain as they are. \<^verbatim>\<open>clear_session\<close> replaces the state of
  its session by the empty sequence.
\<close>

theorem session_operations_append_only:
  "prefix msgs (agent_node e msgs)
   \<and> (\<forall>ms. tool_node e msgs = Inr ms \<longrightarrow> prefix msgs ms)
   \<and> (\<forall>ms. app_invoke e msgs = Some (Inr ms) \<longrightarrow> prefix msgs ms)
   \<and> (\<forall>err ms. app_invoke e msgs = Some (Inl (err, ms)) \<longrightarrow> prefix msgs ms)
   \<and> (\<forall>sid cs1. get_or_create_session h sido cs = (sid, cs1) \<and> map_of cs k = Some s
         \<and> map_of cs (uuid4 h) = None
         \<longrightarrow> (\<exists>s1. map_of cs1 k = Some s1 \<and> agent_state s1 = agent_state s))
   \<and> (\<forall>cs' r. chat e h req cs = Some (cs', r) \<and> map_of cs k = Some s
         \<and> map_of cs (uuid4 h) = None
         \<longrightarrow> (\<exists>s'. map_of cs' k = Some s' \<and> prefix (agent_state s) (agent_state s')))
   \<and> (\<forall>cs' s'. delete_session sid0 cs = Inr cs' \<and> map_of cs' k = Some s'
         \<longrightarrow> map_of cs k = Some s')
   \<and> (map_of cs k = Some s \<longrightarrow>
         clear_session k cs =
           Inr (AList.update k (s\<lparr>session_messages := [], agent_state := [], message_count := 0\<rparr>)
                  cs))"
proof -
  have d: "map_of cs k = Some s'"
    if "delete_session sid0 cs = Inr cs'" and "map_of cs' k = Some s'" for cs' s'
    using that by (auto simp: delete_session_def delete_conv' split: if_splits)
  have c: "clear_session k cs =
           Inr (AList.update k (s\<lparr>session_messages := [], agent_state := [], message_count := 0\<rparr>)
                  cs)"
    if "map_of cs k = Some s"
    using that by (simp add: clear_session_def)
  show ?thesis
    using agent_node_prefix[of msgs e] tool_node_prefix[of e msgs] app_invoke_prefix[of e msgs]
      app_invoke_error_prefix[of e msgs]
      get_or_create_keeps[of h sido cs _ _ k s] chat_prefix[of e h req cs _ _ k s] d c
    by blast
qed

theorem session_operations_append_only_witness:
  "chat ex_env ex_host2 \<lparr>req_message = ''Thanks'', req_session_id = Some ''session-1''\<rparr>
        [(''session-1'', ex_session1)] =
     Some ([(''session-1'', ex_session2)],
           Inr \<lparr>response = ex_answer, session_id = ''session-1'', resp_timestamp = 0,
                sources_used = {}\<rparr>)
   \<and> map_of [(''session-1'', ex_session1)] ''session-1'' = Some ex_session1
   \<and> map_of [(''session-1'', ex_session1)] (uuid4 ex_host2) = None
   \<and> prefix (agent_state ex_session1) (agent_state ex_session2)"
proof -
  have h1: "map_of [(''session-1'', ex_session1)] ''session-1'' = Some ex_session1" by simp
  have h2: "map_of [(''session-1'', ex_session1)] (uuid4 ex_host2) = None"
    by (simp add: ex_host2_def)
  from session_operations_append_only
         [of "[]" ex_env ex_host2 None "[(''session-1'', ex_session1)]" "''session-1''"
             ex_session1 "\<lparr>req_message = ''Thanks'', req_session_id = Some ''session-1''\<rparr>"
             "''session-1''"]
  have "\<forall>cs' r. chat ex_env ex_host2
                   \<lparr>req_message = ''Thanks'', req_session_id = Some ''session-1''\<rparr>
                   [(''session-1'', ex_session1)] = Some (cs', r)
               \<and> map_of [(''session-1'', ex_session1)] ''session-1'' = Some ex_session1
               \<and> map_of [(''session-1'', ex_session1)] (uuid4 ex_host2) = None
         \<longrightarrow> (\<exists>s'. map_of cs' ''session-1'' = Some s'
                 \<and> prefix (agent_state ex_session1) (agent_state s'))"
    by blast
  with ex_chat2 h1 h2 have "\<exists>s'. map_of [(''session-1'', ex_session2)] ''session-1'' = Some s'
                 \<and> prefix (agent_state ex_session1) (agent_state s')"
    by blast
  then have "prefix (agent_state ex_session1) (agent_state ex_session2)" by simp
  with ex_chat2 h1 h2 show ?thesis by blast
qed

subsection \<open>Ingestion\<close>

text \<open>
  Claim C9. When the index directory exists and holds entries, the pipeline loads no
  document, splits nothing and does not call \<^verbatim>\<open>Chroma.from_documents\<close>, where the chunks
  would be embedded: with the embedding model at hand it opens the index in the directory
  and returns what the \<^verbatim>\<open>Chroma\<close> constructor returns. When opening leaves the disk as it
  is, a second run on the disk the first run left gives the same disk and the same store
  as the first.
\<close>

theorem populated_index_is_loaded:
  assumes "path_exists lib d" and "listdir lib d \<noteq> []"
  shows "LoadDocuments \<notin> set (fst (snd (build_or_load_vectorstore lib d)))
       \<and> SplitDocuments \<notin> set (fst (snd (build_or_load_vectorstore lib d)))
       \<and> ChromaFromDocuments \<notin> set (fst (snd (build_or_load_vectorstore lib d)))
       \<and> (\<forall>em. get_embedding_model lib = Inr em \<longrightarrow>
            build_or_load_vectorstore lib d =
              (fst (chroma lib em d), [GetEmbeddingModel, ChromaOpen], snd (chroma lib em d)))
       \<and> ((\<forall>em. fst (chroma lib em d) = d) \<longrightarrow>
            build_or_load_vectorstore lib (fst (build_or_load_vectorstore lib d)) =
              build_or_load_vectorstore lib d)"
proof -
  have b: "build_or_load_vectorstore lib d =
      (case get_embedding_model lib of
         Inl ex \<Rightarrow> (d, [GetEmbeddingModel], Inl ex)
       | Inr em \<Rightarrow> (fst (chroma lib em d), [GetEmbeddingModel, ChromaOpen], snd (chroma lib em d)))"
    using assms by (simp add: build_or_load_vectorstore_def split: sum.splits prod.splits)
  show ?thesis
    by (cases "get_embedding_model lib") (simp_all add: b)
qed

theorem populated_index_is_loaded_witness:
  "path_exists ex_library [''chroma.sqlite3'']
   \<and> listdir ex_library [''chroma.sqlite3''] \<noteq> []
   \<and> build_or_load_vectorstore ex_library [''chroma.sqlite3''] =
       ([''chroma.sqlite3''], [GetEmbeddingModel, ChromaOpen], Inr [''chroma.sqlite3''])
   \<and> build_or_load_vectorstore ex_library
       (fst (build_or_load_vectorstore ex_library [''chroma.sqlite3''])) =
       build_or_load_vectorstore ex_library [''chroma.sqlite3'']"
proof -
  have h1: "path_exists ex_library [''chroma.sqlite3'']" by (simp add: ex_library_def)
  have h2: "listdir ex_library [''chroma.sqlite3''] \<noteq> []" by (simp add: ex_library_def)
  have e: "get_embedding_model ex_library = Inr ()"
    by (simp add: get_embedding_model_def ex_library_def)
  have c: "chroma ex_library em [''chroma.sqlite3''] = ([''chroma.sqlite3''], Inr [''chroma.sqlite3''])"
    for em
    by (simp add: ex_library_def)
  from populated_index_is_loaded[OF h1 h2] h1 h2 e c show ?thesis by simp
qed

subsection \<open>Session expiry\<close>

lemma sessions_to_delete_eq:
  "sessions_to_delete t cs = map fst (filter (\<lambda>p. t - last_activity (snd p) > day_us) cs)"
  by (induction t cs rule: sessions_to_delete.induct) auto

lemma delete_all_eq:
  "distinct ks \<Longrightarrow> set ks \<subseteq> fst ` set cs \<Longrightarrow>
   delete_all ks cs = Inr (filter (\<lambda>p. fst p \<notin> set ks) cs)"
proof (induction ks arbitrary: cs)
  case Nil
  then show ?case by simp
next
  case (Cons k ks)
  have d: "AList.delete k cs = filter (\<lambda>p. fst p \<noteq> k) cs"
    by (induction cs) (auto simp: AList.delete_eq)
  from Cons.prems have k: "map_of cs k \<noteq> None" by (simp add: map_of_eq_None_iff)
  have sub: "set ks \<subseteq> fst ` set (AList.delete k cs)"
  proof
    fix x assume x: "x \<in> set ks"
    with Cons.prems obtain p where "p \<in> set cs" "fst p = x" by auto
    moreover from x Cons.prems have "x \<noteq> k" by auto
    ultimately show "x \<in> fst ` set (AList.delete k cs)" by (force simp: d)
  qed
  from Cons.prems have "distinct ks" by simp
  from Cons.IH[OF this sub] k show ?case
    by (simp add: d conj_commute)
qed

lemma cleanup_filter:
  assumes "distinct (map fst cs)"
  shows "delete_all (sessions_to_delete t cs) cs =
           Inr (filter (\<lambda>p. \<not> t - last_activity (snd p) > day_us) cs)"
proof -
  let ?old = "\<lambda>p. t - last_activity (snd p) > day_us"
  let ?ks = "map fst (filter ?old cs)"
  have dk: "distinct ?ks" using assms by (simp add: distinct_map_filter)
  have sub: "set ?ks \<subseteq> fst ` set cs" by auto
  have "filter (\<lambda>p. fst p \<notin> set ?ks) cs = filter (\<lambda>p. \<not> ?old p) cs"
  proof (rule filter_cong[OF refl])
    fix p assume p: "p \<in> set cs"
    show "(fst p \<notin> set ?ks) = (\<not> ?old p)"
    proof
      assume "fst p \<notin> set ?ks" with p show "\<not> ?old p" by force
    next
      assume n: "\<not> ?old p"
      show "fst p \<notin> set ?ks"
      proof
        assume "fst p \<in> set ?ks"
        then obtain q where q: "q \<in> set cs" "?old q" "fst q = fst p" by auto
        with p assms have "q = p" by (metis eq_key_imp_eq_value prod.collapse)
        with q n show False by simp
      qed
    qed
  qed
  with delete_all_eq[OF dk sub] show ?thesis by (simp add: sessions_to_delete_eq)
qed

text \<open>
  Claim C10. For a session map (a dict: no key twice) and the time \<open>now h 245\<close> read
  at the start of the sweep, the sweep returns the map without the sessions whose
  \<open>last_activity\<close> lies more than 24 hours back, in the old order, and counts the removed
  ones. A session idle for 24 hours or less stays as it is, so the bound is exclusive: a
  session idle for 24 hours to the microsecond stays. No key comes into the map.
\<close>

theorem sweep_removes_exactly_expired:
  assumes "distinct (map fst cs)"
  shows "\<exists>cs'. cleanup_old_sessions h cs =
            Inr (cs', length (filter (\<lambda>p. now h 245 - last_activity (snd p) > 24 * 3600 * 1000000) cs))
          \<and> cs' = filter (\<lambda>p. now h 245 - last_activity (snd p) \<le> 24 * 3600 * 1000000) cs
          \<and> (\<forall>sid. map_of cs' sid =
                (case map_of cs sid of
                   None \<Rightarrow> None
                 | Some s \<Rightarrow>
                     if now h 245 - last_activity s > 24 * 3600 * 1000000 then None else Some s))"
proof -
  let ?t = "now h 245"
  let ?cs' = "filter (\<lambda>p. ?t - last_activity (snd p) \<le> 24 * 3600 * 1000000) cs"
  have f: "delete_all (sessions_to_delete ?t cs) cs = Inr ?cs'"
    using cleanup_filter[OF assms, of ?t] by (simp add: day_us_def not_less)
  have m: "map_of ?cs' sid =
                (case map_of cs sid of
                   None \<Rightarrow> None
                 | Some s \<Rightarrow>
                     if ?t - last_activity s > 24 * 3600 * 1000000 then None else Some s)" for sid
    using assms
  proof (induction cs)
    case Nil
    then show ?case by simp
  next
    case (Cons p cs)
    then show ?case
      by (cases p) (auto simp: map_of_eq_None_iff image_iff split: option.splits)
  qed
  show ?thesis
    using f m by (simp add: cleanup_old_sessions_def sessions_to_delete_eq day_us_def)
qed

theorem sweep_removes_exactly_expired_witness:
  "distinct (map fst ex_sweep_sessions)
   \<and> now ex_sweep_host 245 - last_activity (ex_idle 13600000000) = 24 * 3600 * 1000000
   \<and> cleanup_old_sessions ex_sweep_host ex_sweep_sessions =
       Inr ([(''edge'', ex_idle 13600000000), (''young'', ex_idle 96400000000)], 1)"
proof -
  have h: "distinct (map fst ex_sweep_sessions)" by (simp add: ex_sweep_sessions_def)
  from sweep_removes_exactly_expired[OF h, of ex_sweep_host] h show ?thesis
    by (simp add: ex_sweep_sessions_def ex_sweep_host_def ex_idle_def)
qed

end
